theory Spec2Isabelle
  imports Main "HOL-Library.Word"
begin

unbundle bit_operations_syntax

section \<open>Common types\<close>

text \<open>
  Byte slices are lists of 8-bit words. \<open>common.Hash\<close> is a 32-byte array and
  \<open>common.Address\<close> a 20-byte array; both are fixed-width words here, so that the width is
  carried by the type. The zero value \<open>common.Hash{}\<close> is the word \<open>0\<close>.
\<close>

type_synonym Bytes = "8 word list"
type_synonym Hash = "256 word"
type_synonym Address = "160 word"

text \<open>The run-time panics the modelled code can raise.\<close>

datatype panic = NilPointerDereference | TypeAssertionFailed

section \<open>core/block.go\<close>

text \<open>
  \<open>BlockHeader\<close>: the eight exported fields in their declared order, and the unexported
  \<open>hash\<close>, the cache of the calculated hash. \<open>Timestamp\<close> is a \<open>*big.Int\<close>, which may
  be nil. A pointer to a header is a \<open>BlockHeader option\<close>, with \<open>None\<close> for nil.
\<close>

record BlockHeader =
  ChainID :: string
  Epoch :: "64 word"
  Height :: "64 word"
  Parent :: Hash
  TxHash :: Hash
  StateHash :: Hash
  Timestamp :: "int option"
  Proposer :: Address
  hash :: Hash

text \<open>\<open>Block\<close> embeds a \<open>*BlockHeader\<close> and carries the transaction payloads.\<close>

record Block =
  BlockHeader :: "BlockHeader option"
  Txs :: "Bytes list"

datatype BlockStatus = BlockStatusPending | BlockStatusCommitted | BlockStatusFinalized

text \<open>\<open>ExtendedBlock\<close> embeds a \<open>*Block\<close>.\<close>

record ExtendedBlock =
  Block :: "Block option"
  Children :: "Hash list"
  Status :: BlockStatus

text \<open>
  Modelled from the spec: \<open>common.Hash.IsEmpty\<close> belongs to package \<open>common\<close>, which is
  not among the sources. The spec's data model gives a block a 32-byte hash that is cached on
  first computation; a hash is taken to be empty when it is the zero value
  \<open>common.Hash{}\<close>, the value line 55 of block.go returns for a nil header.
\<close>

definition IsEmpty :: "Hash \<Rightarrow> bool" where
  "IsEmpty h = (h = 0)"

text \<open>
  \<open>func (h *BlockHeader) Hash() common.Hash\<close>. The two library functions it calls are
  parameters: \<open>Keccak256Hash\<close> is \<open>crypto.Keccak256Hash\<close> and \<open>EncodeToBytes\<close> is
  \<open>rlp.EncodeToBytes\<close> with its error dropped, as the source drops it
  (\<open>raw, _ := rlp.EncodeToBytes(h)\<close>). The method writes the cache, so the model returns the
  hash together with the header as the call leaves it.
\<close>

definition BlockHeader_Hash ::
  "(Bytes \<Rightarrow> Hash) \<Rightarrow> (BlockHeader \<Rightarrow> Bytes) \<Rightarrow> BlockHeader option
     \<Rightarrow> Hash \<times> BlockHeader option" where
  "BlockHeader_Hash Keccak256Hash EncodeToBytes h =
     (case h of
        None \<Rightarrow> (0, None)
      | Some hdr \<Rightarrow>
          (if IsEmpty (hash hdr)
           then (let raw = EncodeToBytes hdr;
                     hdr' = hdr\<lparr>hash := Keccak256Hash raw\<rparr>
                 in (hash hdr', Some hdr'))
           else (hash hdr, Some hdr)))"

text \<open>
  \<open>func (eb *ExtendedBlock) Hash() common.Hash\<close>. Reading \<open>eb.Block\<close> through a nil
  receiver panics; a nil \<open>Block\<close> gives the zero hash; otherwise the promoted
  \<open>eb.BlockHeader.Hash()\<close> runs on the header pointer of the block (which may itself be
  nil) and its write to the cache is visible through \<open>eb\<close>.
\<close>

definition ExtendedBlock_Hash ::
  "(Bytes \<Rightarrow> Hash) \<Rightarrow> (BlockHeader \<Rightarrow> Bytes) \<Rightarrow> ExtendedBlock option
     \<Rightarrow> panic + (Hash \<times> ExtendedBlock option)" where
  "ExtendedBlock_Hash Keccak256Hash EncodeToBytes eb =
     (case eb of
        None \<Rightarrow> Inl NilPointerDereference
      | Some x \<Rightarrow>
          (case Block x of
             None \<Rightarrow> Inr (0, Some x)
           | Some b \<Rightarrow>
               (let (h, hdr') = BlockHeader_Hash Keccak256Hash EncodeToBytes (BlockHeader b)
                in Inr (h, Some (x\<lparr>Block := Some (b\<lparr>BlockHeader := hdr'\<rparr>)\<rparr>)))))"

text \<open>Headers used as concrete inputs below.\<close>

definition header0 :: BlockHeader where
  "header0 = \<lparr>ChainID = ''test'', Epoch = 1, Height = 1, Parent = 0, TxHash = 0,
     StateHash = 0, Timestamp = Some 1000, Proposer = 1, hash = 0\<rparr>"

text \<open>
  Toy stand-ins for the two library functions, for evaluating the model on concrete inputs:
  the encoder lists the bytes of the chain identifier followed by the low bytes of epoch and
  height, the hash function counts the bytes and adds one.
\<close>

definition toy_encode :: "BlockHeader \<Rightarrow> Bytes" where
  "toy_encode h = map of_char (ChainID h) @ [ucast (Epoch h), ucast (Height h)]"

definition toy_keccak :: "Bytes \<Rightarrow> Hash" where
  "toy_keccak bs = of_nat (length bs) + 1"

section \<open>consensus/engine.go\<close>

subsection \<open>Byte comparison and channels\<close>

text \<open>
  \<open>bytes.Compare\<close> of the Go standard library: the lexicographic comparison of two byte
  slices, with result \<open>-1\<close>, \<open>0\<close> or \<open>1\<close>; a nil slice is an empty one.
\<close>

fun bytes_Compare :: "Bytes \<Rightarrow> Bytes \<Rightarrow> int" where
  "bytes_Compare [] [] = 0"
| "bytes_Compare [] (y # ys) = - 1"
| "bytes_Compare (x # xs) [] = 1"
| "bytes_Compare (x # xs) (y # ys) =
     (if x < y then - 1 else if y < x then 1 else bytes_Compare xs ys)"

text \<open>
  A buffered Go channel, as far as one goroutine sees it: its capacity and the values waiting
  in its buffer, oldest first. \<open>make(chan T, n)\<close> is \<open>make_chan n\<close>.

  \<open>chan_send\<close> is the statement \<open>c <- v\<close>. With room in the buffer it appends the value.
  With a full buffer the statement does not complete: the sending goroutine stays suspended
  for as long as the buffer stays full, and the result is \<open>None\<close>.

  \<open>chan_try_send\<close> is \<open>select { case c <- v: default: }\<close>: it appends the value when
  there is room and otherwise goes on without it.
\<close>

record 'a chan =
  chan_cap :: nat
  chan_buf :: "'a list"

definition make_chan :: "nat \<Rightarrow> 'a chan" where
  "make_chan n = \<lparr>chan_cap = n, chan_buf = []\<rparr>"

definition chan_send :: "'a chan \<Rightarrow> 'a \<Rightarrow> 'a chan option" where
  "chan_send c v =
     (if length (chan_buf c) < chan_cap c
      then Some (c\<lparr>chan_buf := chan_buf c @ [v]\<rparr>)
      else None)"

definition chan_try_send :: "'a chan \<Rightarrow> 'a \<Rightarrow> 'a chan" where
  "chan_try_send c v =
     (if length (chan_buf c) < chan_cap c
      then c\<lparr>chan_buf := chan_buf c @ [v]\<rparr>
      else c)"

subsection \<open>The blocks the engine points to\<close>

text \<open>
  engine.go is written against package \<open>blockchain\<close>, whose declarations are not among the
  sources. Its \<open>ExtendedBlock\<close> is not the one of core/block.go: the engine reads
  \<open>Hash\<close> as a byte slice, \<open>Height\<close> and \<open>Epoch\<close> as numbers it compares with its own
  \<open>uint32\<close> epoch, \<open>Parent\<close> as a pointer to an \<open>ExtendedBlock\<close>,
  \<open>CommitCertificate\<close> as a pointer, and \<open>Block\<close> as the \<open>*blockchain.Block\<close> it
  publishes. The record below holds these fields, named with a leading \<open>b\<close> to keep them
  apart from the fields of core/block.go, and two more that the engine never touches: the
  children, which the fork-choice rule walks, and the status label of the spec's data model.
  The epoch is a \<open>uint32\<close>, since Go compares and assigns it with the engine's epoch
  without a conversion; the height is given the same width, that of the engine's
  \<open>lastVoteHeight\<close>.

  Blocks are shared and reached by pointer, so they live in a store: a list of blocks, a
  pointer being an index into it and \<open>None\<close> the nil pointer. \<open>deref\<close> reads through a
  pointer and panics on nil (and on an index outside the store, which no Go pointer is).
\<close>

type_synonym ref = nat

text \<open>
  Modelled from the spec: the declarations of \<open>blockchain.Vote\<close>, \<open>VoteSet\<close> and of the
  validator set are missing. A vote has a voter address, a block hash, the epoch at which it
  was cast and a signature; a vote set is a collection of votes; a validator set is an ordered
  sequence of validators, each with an address and an integer stake.
\<close>

record Vote =
  Voter :: Address
  VoteBlock :: Bytes
  VoteEpoch :: "32 word"
  Signature :: Bytes

type_synonym VoteSet = "Vote list"
type_synonym ValidatorSet = "(Address \<times> nat) list"

record blockchain_ExtendedBlock =
  bBlock :: "ref option"
  bHash :: Bytes
  bHeight :: "32 word"
  bEpoch :: "32 word"
  bParent :: "ref option"
  bChildren :: "ref list"
  bCommitCertificate :: "VoteSet option"
  bStatus :: BlockStatus

record Chain =
  Root :: "ref option"

definition deref :: "'a list \<Rightarrow> ref option \<Rightarrow> panic + 'a" where
  "deref mem p =
     (case p of
        None \<Rightarrow> Inl NilPointerDereference
      | Some r \<Rightarrow> (if r < length mem then Inr (mem ! r) else Inl NilPointerDereference))"

subsection \<open>The engine and its collaborators\<close>

text \<open>
  \<open>DefaultEngine\<close>. The fields are those of the struct, with these readings:
  \<^item> \<open>network\<close> is the \<open>p2p.Network\<close> interface value: \<open>None\<close> is the nil interface,
    \<open>Some i\<close> a network whose \<open>ID()\<close> returns \<open>i\<close>;
  \<^item> \<open>blocks\<close> is the store the three block pointers point into;
  \<^item> \<open>incoming\<close> carries values of any type (\<open>interface{}\<close>), here a type parameter;
  \<^item> \<open>finalizedBlocks\<close> carries \<open>*blockchain.Block\<close> pointers;
  \<^item> \<open>validatorManager\<close> holds the validator set pointer it was created from;
  \<^item> \<open>world\<close> stands for the state of the objects the fields \<open>proposerStrategy\<close>,
    \<open>replicaStrategy\<close> and \<open>epochManager\<close> point to, and of the network: the state of
    the code that is not in engine.go.
\<close>

record ('m, 'w) DefaultEngine =
  chain :: Chain
  network :: "string option"
  blocks :: "blockchain_ExtendedBlock list"
  incoming :: "'m chan"
  finalizedBlocks :: "ref option chan"
  highestCCBlock :: "ref option"
  lastFinalizedBlock :: "ref option"
  tip :: "ref option"
  lastVoteHeight :: "32 word"
  voteLog :: "32 word \<rightharpoonup> Vote"
  collectedVotes :: "string \<rightharpoonup> VoteSet"
  epoch :: "32 word"
  validatorManager :: "ValidatorSet option"
  world :: 'w

text \<open>
  The methods of the strategies, the epoch manager and the network that engine.go calls.
  Their code is not among the sources, and each of them is handed the engine (\<open>Init(e)\<close>,
  \<open>AddMessageHandler(e)\<close>) or holds it from then on, so each is a parameter that maps the
  engine state before the call to the engine state after it. A call is taken to return.
\<close>

record ('m, 'w) collaborators =
  ProposerStrategy_Init :: "('m, 'w) DefaultEngine \<Rightarrow> ('m, 'w) DefaultEngine"
  ReplicaStrategy_Init :: "('m, 'w) DefaultEngine \<Rightarrow> ('m, 'w) DefaultEngine"
  EpochManager_Init :: "('m, 'w) DefaultEngine \<Rightarrow> ('m, 'w) DefaultEngine"
  Network_AddMessageHandler :: "('m, 'w) DefaultEngine \<Rightarrow> ('m, 'w) DefaultEngine"
  ProposerStrategy_EnterNewEpoch ::
    "32 word \<Rightarrow> ('m, 'w) DefaultEngine \<Rightarrow> ('m, 'w) DefaultEngine"
  ReplicaStrategy_EnterNewEpoch ::
    "32 word \<Rightarrow> ('m, 'w) DefaultEngine \<Rightarrow> ('m, 'w) DefaultEngine"
  EpochManager_SetEpoch ::
    "32 word \<Rightarrow> ('m, 'w) DefaultEngine \<Rightarrow> ('m, 'w) DefaultEngine"

text \<open>
  The struct literal of \<open>NewEngine\<close> (lines 42 to 60). \<open>lastVoteHeight\<close> is not listed in
  the literal and gets the zero value.
\<close>

definition engine_literal ::
  "blockchain_ExtendedBlock list \<Rightarrow> 'w \<Rightarrow> Chain \<Rightarrow> string option \<Rightarrow> ValidatorSet option
     \<Rightarrow> ('m, 'w) DefaultEngine" where
  "engine_literal mem w ch net validators =
     \<lparr>chain = ch, network = net, blocks = mem,
      incoming = make_chan 5000, finalizedBlocks = make_chan 5000,
      highestCCBlock = Root ch, lastFinalizedBlock = Root ch, tip = Root ch,
      lastVoteHeight = 0, voteLog = Map.empty, collectedVotes = Map.empty,
      epoch = 0, validatorManager = validators, world = w\<rparr>"

text \<open>
  \<open>NewEngine\<close>. \<open>chain.Root\<close> panics on a nil chain; the three \<open>Init\<close> calls run in
  order; \<open>network.AddMessageHandler(e)\<close> panics on a nil network. \<open>mem\<close> and \<open>w\<close> are
  the block store and the state of the collaborators at the time of the call. The two
  constructors in the literal, \<open>NewRotatingValidatorManager\<close> and \<open>NewEpochManager\<close>,
  are taken to return.
\<close>

definition NewEngine ::
  "('m, 'w) collaborators \<Rightarrow> blockchain_ExtendedBlock list \<Rightarrow> 'w \<Rightarrow> Chain option
     \<Rightarrow> string option \<Rightarrow> ValidatorSet option \<Rightarrow> panic + ('m, 'w) DefaultEngine" where
  "NewEngine C mem w chain' network' validators =
     (case chain' of
        None \<Rightarrow> Inl NilPointerDereference
      | Some ch \<Rightarrow>
          (let e = engine_literal mem w ch network' validators;
               e1 = ProposerStrategy_Init C e;
               e2 = ReplicaStrategy_Init C e1;
               e3 = EpochManager_Init C e2
           in (case network' of
                 None \<Rightarrow> Inl NilPointerDereference
               | Some _ \<Rightarrow> Inr (Network_AddMessageHandler C e3))))"

text \<open>\<open>ID\<close> returns \<open>e.network.ID()\<close>; the call panics on a nil network.\<close>

definition ID :: "('m, 'w) DefaultEngine \<Rightarrow> panic + string" where
  "ID e = (case network e of None \<Rightarrow> Inl NilPointerDereference | Some i \<Rightarrow> Inr i)"

definition enterNewEpoch ::
  "('m, 'w) collaborators \<Rightarrow> ('m, 'w) DefaultEngine \<Rightarrow> 32 word \<Rightarrow> ('m, 'w) DefaultEngine" where
  "enterNewEpoch C e newEpoch =
     (let e1 = e\<lparr>epoch := newEpoch\<rparr>;
          e2 = ProposerStrategy_EnterNewEpoch C newEpoch e1
      in ReplicaStrategy_EnterNewEpoch C newEpoch e2)"

text \<open>
  \<open>HandleMessage\<close> of the engine: the plain send \<open>e.incoming <- msg\<close>. The \<open>network\<close>
  argument of the method is not used.
\<close>

definition DefaultEngine_HandleMessage ::
  "('m, 'w) DefaultEngine \<Rightarrow> 'm \<Rightarrow> ('m, 'w) DefaultEngine option" where
  "DefaultEngine_HandleMessage e msg =
     (case chan_send (incoming e) msg of
        None \<Rightarrow> None
      | Some q \<Rightarrow> Some (e\<lparr>incoming := q\<rparr>))"

text \<open>
  A run of deliveries with no receive in between: one call of \<open>HandleMessage\<close> per
  message, in order. It has a result when every call has returned.
\<close>

fun deliver :: "('m, 'w) DefaultEngine \<Rightarrow> 'm list \<Rightarrow> ('m, 'w) DefaultEngine option" where
  "deliver e [] = Some e"
| "deliver e (m # ms) =
     (case DefaultEngine_HandleMessage e m of None \<Rightarrow> None | Some e' \<Rightarrow> deliver e' ms)"

text \<open>
  Modelled from the spec: \<open>FindDeepestDescendant\<close> is a method of the missing
  \<open>blockchain.ExtendedBlock\<close>. It returns the tip of the longest path starting at the
  block, breaking ties by highest epoch and then by block hash in lexicographic order (the
  smaller hash is taken to win), and with it the length of that path. The walk over the
  children is bounded by the number of blocks in the store, which is as deep as a tree in
  the store can be. \<open>better\<close> picks between two candidates, each a block with its depth.
\<close>

fun better ::
  "blockchain_ExtendedBlock list \<Rightarrow> ref \<times> nat \<Rightarrow> ref \<times> nat \<Rightarrow> ref \<times> nat" where
  "better mem (r1, d1) (r2, d2) =
     (if d1 < d2 then (r2, d2)
      else if d2 < d1 then (r1, d1)
      else if bEpoch (mem ! r1) < bEpoch (mem ! r2) then (r2, d2)
      else if bEpoch (mem ! r2) < bEpoch (mem ! r1) then (r1, d1)
      else if bytes_Compare (bHash (mem ! r2)) (bHash (mem ! r1)) < 0 then (r2, d2)
      else (r1, d1))"

fun deepest :: "nat \<Rightarrow> blockchain_ExtendedBlock list \<Rightarrow> ref \<Rightarrow> ref \<times> nat" where
  "deepest 0 mem r = (r, 0)"
| "deepest (Suc n) mem r =
     (if r < length mem
      then foldl (better mem) (r, 0)
             (map (\<lambda>c. case deepest n mem c of (d, k) \<Rightarrow> (d, Suc k))
                (filter (\<lambda>c. c < length mem) (bChildren (mem ! r))))
      else (r, 0))"

definition FindDeepestDescendant ::
  "blockchain_ExtendedBlock list \<Rightarrow> ref option \<Rightarrow> panic + (ref option \<times> nat)" where
  "FindDeepestDescendant mem from =
     (case from of
        None \<Rightarrow> Inl NilPointerDereference
      | Some r \<Rightarrow>
          (if r < length mem
           then (case deepest (length mem) mem r of (d, k) \<Rightarrow> Inr (Some d, k))
           else Inl NilPointerDereference))"

text \<open>\<open>setTip\<close> stores the deepest descendant of \<open>highestCCBlock\<close> and returns it.\<close>

definition setTip ::
  "('m, 'w) DefaultEngine \<Rightarrow> panic + (('m, 'w) DefaultEngine \<times> ref option)" where
  "setTip e =
     (case FindDeepestDescendant (blocks e) (highestCCBlock e) of
        Inl p \<Rightarrow> Inl p
      | Inr (ret, _) \<Rightarrow> Inr (e\<lparr>tip := ret\<rparr>, ret))"

text \<open>
  \<open>finalizeBlock\<close>. Both hashes are read through their pointers before the comparison.
  Of the two logging statements only the evaluation of their arguments is modelled:
  \<open>e.ID()\<close>, which comes after the early return. Then the pointer is assigned, and the
  block is offered to the channel without blocking.
\<close>

definition finalizeBlock ::
  "('m, 'w) DefaultEngine \<Rightarrow> ref option \<Rightarrow> panic + ('m, 'w) DefaultEngine" where
  "finalizeBlock e block =
     (case deref (blocks e) block of
        Inl p \<Rightarrow> Inl p
      | Inr b \<Rightarrow>
          (case deref (blocks e) (lastFinalizedBlock e) of
             Inl p \<Rightarrow> Inl p
           | Inr lf \<Rightarrow>
               (if bytes_Compare (bHash b) (bHash lf) = 0 then Inr e
                else (case ID e of
                        Inl p \<Rightarrow> Inl p
                      | Inr _ \<Rightarrow>
                          (let e1 = e\<lparr>lastFinalizedBlock := block\<rparr>
                           in Inr (e1\<lparr>finalizedBlocks :=
                                       chan_try_send (finalizedBlocks e1) (bBlock b)\<rparr>))))))"

text \<open>
  \<open>processCCBlock\<close>, statement by statement: the logging arguments (\<open>e.ID()\<close>), the
  update of \<open>highestCCBlock\<close>, the finalization of the parent when the parent carries a
  commit certificate, and the epoch advance. \<open>ccBlock.Epoch + 1\<close> is an addition of
  \<open>uint32\<close> values and wraps around.
\<close>

definition processCCBlock ::
  "('m, 'w) collaborators \<Rightarrow> ('m, 'w) DefaultEngine \<Rightarrow> ref option
     \<Rightarrow> panic + ('m, 'w) DefaultEngine" where
  "processCCBlock C e ccBlock =
     (case ID e of
        Inl p \<Rightarrow> Inl p
      | Inr _ \<Rightarrow>
     (case deref (blocks e) ccBlock of
        Inl p \<Rightarrow> Inl p
      | Inr cc \<Rightarrow>
     (case deref (blocks e) (highestCCBlock e) of
        Inl p \<Rightarrow> Inl p
      | Inr hc \<Rightarrow>
     (let e1 = (if bHeight hc < bHeight cc then e\<lparr>highestCCBlock := ccBlock\<rparr> else e)
      in
     (case deref (blocks e1) (bParent cc) of
        Inl p \<Rightarrow> Inl p
      | Inr par \<Rightarrow>
     (case (if bCommitCertificate par \<noteq> None
            then finalizeBlock e1 (bParent cc)
            else Inr e1) of
        Inl p \<Rightarrow> Inl p
      | Inr e2 \<Rightarrow>
          (if epoch e2 \<le> bEpoch cc
           then (let newEpoch = bEpoch cc + 1
                 in Inr (EpochManager_SetEpoch C newEpoch (enterNewEpoch C e2 newEpoch)))
           else Inr e2)))))))"

text \<open>
  Modelled from the spec: \<open>is_ancestor(a, b)\<close> of the block tree, which is not among the
  sources: \<open>a\<close> lies along the parent chain of \<open>b\<close>. The chain starts at \<open>b\<close> itself,
  and the walk is bounded by the number of blocks in the store.
\<close>

fun is_ancestor_within ::
  "nat \<Rightarrow> blockchain_ExtendedBlock list \<Rightarrow> ref option \<Rightarrow> ref option \<Rightarrow> bool" where
  "is_ancestor_within 0 mem a b = (a = b)"
| "is_ancestor_within (Suc n) mem a b =
     (a = b \<or>
      (case deref mem b of
         Inl _ \<Rightarrow> False
       | Inr x \<Rightarrow> is_ancestor_within n mem a (bParent x)))"

definition is_ancestor ::
  "blockchain_ExtendedBlock list \<Rightarrow> ref option \<Rightarrow> ref option \<Rightarrow> bool" where
  "is_ancestor mem a b = is_ancestor_within (length mem) mem a b"

subsection \<open>What a collaborator may be assumed to leave alone\<close>

text \<open>
  \<open>only_world f\<close>: the call \<open>f\<close> changes no field of the engine, only the state of the
  collaborators. \<open>keeps_epoch C\<close>: the epoch callbacks do not assign the engine's epoch.
\<close>

definition only_world :: "(('m, 'w) DefaultEngine \<Rightarrow> ('m, 'w) DefaultEngine) \<Rightarrow> bool" where
  "only_world f = (\<forall>e. f e = e\<lparr>world := world (f e)\<rparr>)"

definition keeps_epoch :: "('m, 'w) collaborators \<Rightarrow> bool" where
  "keeps_epoch C =
     (\<forall>n e. epoch (ProposerStrategy_EnterNewEpoch C n e) = epoch e \<and>
            epoch (ReplicaStrategy_EnterNewEpoch C n e) = epoch e \<and>
            epoch (EpochManager_SetEpoch C n e) = epoch e)"

subsection \<open>Concrete inputs\<close>

text \<open>
  Collaborators that do nothing but record each call, in order, in the world; and a store of
  three blocks in a line: the root, its child and its grandchild.
\<close>

datatype event = ProposerInit | ReplicaInit | EpochManagerInit | AddMessageHandler
  | ProposerEnterNewEpoch "32 word" | ReplicaEnterNewEpoch "32 word" | SetEpoch "32 word"

definition logging :: "('m, event list) collaborators" where
  "logging =
     \<lparr>ProposerStrategy_Init = (\<lambda>e. e\<lparr>world := world e @ [ProposerInit]\<rparr>),
      ReplicaStrategy_Init = (\<lambda>e. e\<lparr>world := world e @ [ReplicaInit]\<rparr>),
      EpochManager_Init = (\<lambda>e. e\<lparr>world := world e @ [EpochManagerInit]\<rparr>),
      Network_AddMessageHandler = (\<lambda>e. e\<lparr>world := world e @ [AddMessageHandler]\<rparr>),
      ProposerStrategy_EnterNewEpoch =
        (\<lambda>n e. e\<lparr>world := world e @ [ProposerEnterNewEpoch n]\<rparr>),
      ReplicaStrategy_EnterNewEpoch =
        (\<lambda>n e. e\<lparr>world := world e @ [ReplicaEnterNewEpoch n]\<rparr>),
      EpochManager_SetEpoch = (\<lambda>n e. e\<lparr>world := world e @ [SetEpoch n]\<rparr>)\<rparr>"

definition block0 :: blockchain_ExtendedBlock where
  "block0 = \<lparr>bBlock = Some 100, bHash = [0], bHeight = 0, bEpoch = 0, bParent = None,
     bChildren = [1], bCommitCertificate = None, bStatus = BlockStatusFinalized\<rparr>"

definition block1 :: blockchain_ExtendedBlock where
  "block1 = \<lparr>bBlock = Some 101, bHash = [1], bHeight = 1, bEpoch = 1, bParent = Some 0,
     bChildren = [2], bCommitCertificate = Some [], bStatus = BlockStatusCommitted\<rparr>"

definition block2 :: blockchain_ExtendedBlock where
  "block2 = \<lparr>bBlock = Some 102, bHash = [2], bHeight = 2, bEpoch = 2, bParent = Some 1,
     bChildren = [], bCommitCertificate = Some [], bStatus = BlockStatusCommitted\<rparr>"

definition engine0 :: "(nat, event list) DefaultEngine" where
  "engine0 =
     engine_literal [block0, block1, block2] [] \<lparr>Root = Some 0\<rparr> (Some ''node'') None"

text \<open>The same engine with 5000 messages waiting in its inbound queue.\<close>

definition engine_full :: "(nat, event list) DefaultEngine" where
  "engine_full = engine0\<lparr>incoming := \<lparr>chan_cap = 5000, chan_buf = replicate 5000 0\<rparr>\<rparr>"

section \<open>The mempool message handler (unnamed/part_000)\<close>

text \<open>
  \<open>types.Message\<close> and \<open>common.ChannelIDEnum\<close> are declared outside the sources. A
  message has the three fields \<open>ParseMessage\<close> fills in; the channel identifier is a type
  parameter and \<open>ChannelIDTransaction\<close> a parameter of the handler. \<open>Content\<close> is an
  \<open>interface{}\<close>: what matters to the handler is whether its dynamic type is
  \<open>*mempoolTransaction\<close> (a pointer, possibly nil), or anything else, such as the
  \<open>mempoolTransaction\<close> value that \<open>ParseMessage\<close> stores.
\<close>

record mempoolTransaction =
  rawTransaction :: Bytes

datatype content =
    PtrMempoolTransaction "mempoolTransaction option"
  | ValMempoolTransaction mempoolTransaction
  | OtherContent

record 'c Message =
  PeerID :: string
  ChannelID :: 'c
  Content :: content

text \<open>
  The error a call returns: the one built by \<open>fmt.Errorf\<close> for a wrong channel, which
  carries the channel, or the error of \<open>ProcessTransaction\<close>.
\<close>

datatype ('c, 'e) handler_error = InvalidChannel 'c | ProcessTransactionError 'e

text \<open>
  \<open>func (mmp *MempoolMessageHandler) HandleMessage(message types.Message) error\<close>.
  \<open>ProcessTransaction\<close> is the method of the mempool, which is not among the sources: a
  parameter that maps the mempool before the call to the mempool after it and the error it
  returns. The handler holds the mempool it was created with
  (\<open>CreateMempoolMessageHandler\<close>); the model passes the state of that mempool in and out.
  The type assertion panics when the content is not a \<open>*mempoolTransaction\<close>.
\<close>

definition MempoolMessageHandler_HandleMessage ::
  "'c \<Rightarrow> ('mp \<Rightarrow> mempoolTransaction option \<Rightarrow> 'mp \<times> 'e option) \<Rightarrow> 'mp \<Rightarrow> 'c Message
     \<Rightarrow> panic + ('mp \<times> ('c, 'e) handler_error option)" where
  "MempoolMessageHandler_HandleMessage ChannelIDTransaction ProcessTransaction mempool message =
     (if ChannelID message \<noteq> ChannelIDTransaction
      then Inr (mempool, Some (InvalidChannel (ChannelID message)))
      else (case Content message of
              PtrMempoolTransaction mptx \<Rightarrow>
                (case ProcessTransaction mempool mptx of
                   (mempool', err) \<Rightarrow> Inr (mempool', map_option ProcessTransactionError err))
            | ValMempoolTransaction _ \<Rightarrow> Inl TypeAssertionFailed
            | OtherContent \<Rightarrow> Inl TypeAssertionFailed))"

text \<open>A mempool that only counts the calls of \<open>ProcessTransaction\<close>, for concrete runs.\<close>

definition counting_ProcessTransaction ::
  "nat \<Rightarrow> mempoolTransaction option \<Rightarrow> nat \<times> unit option" where
  "counting_ProcessTransaction calls mptx = (Suc calls, None)"

section \<open>The RPC entry point (unnamed/part_003)\<close>

text \<open>
  \<open>hex.DecodeString\<close> and \<open>hex.EncodeToString\<close> of the Go standard library, on strings
  of 8-bit characters. Decoding reads two characters per byte, accepts digits and the
  letters a to f in either case, reports the first character that is not a hexadecimal digit,
  and reports a bad length when one character is left over.
\<close>

definition fromHexChar :: "char \<Rightarrow> 8 word option" where
  "fromHexChar c =
     (let n = (of_char c :: nat) in
      if 48 \<le> n \<and> n \<le> 57 then Some (of_nat (n - 48))
      else if 97 \<le> n \<and> n \<le> 102 then Some (of_nat (n - 97 + 10))
      else if 65 \<le> n \<and> n \<le> 70 then Some (of_nat (n - 65 + 10))
      else None)"

datatype hex_error = ErrLength | InvalidByteError char

fun hex_DecodeString :: "string \<Rightarrow> hex_error + Bytes" where
  "hex_DecodeString [] = Inr []"
| "hex_DecodeString [c] =
     (case fromHexChar c of None \<Rightarrow> Inl (InvalidByteError c) | Some _ \<Rightarrow> Inl ErrLength)"
| "hex_DecodeString (c1 # c2 # cs) =
     (case fromHexChar c1 of
        None \<Rightarrow> Inl (InvalidByteError c1)
      | Some a \<Rightarrow>
          (case fromHexChar c2 of
             None \<Rightarrow> Inl (InvalidByteError c2)
           | Some b \<Rightarrow>
               (case hex_DecodeString cs of
                  Inl e \<Rightarrow> Inl e
                | Inr bs \<Rightarrow> Inr ((push_bit 4 a OR b) # bs))))"

definition hextable :: string where
  "hextable = ''0123456789abcdef''"

fun hex_EncodeToString :: "Bytes \<Rightarrow> string" where
  "hex_EncodeToString [] = []"
| "hex_EncodeToString (v # vs) =
     hextable ! unat (drop_bit 4 v) # hextable ! unat (v AND 15) # hex_EncodeToString vs"

text \<open>A hex string: an even number of hexadecimal digits.\<close>

definition is_hex_digit :: "char \<Rightarrow> bool" where
  "is_hex_digit c = (c \<in> set ''0123456789abcdefABCDEF'')"

definition is_hex_string :: "string \<Rightarrow> bool" where
  "is_hex_string s = (even (length s) \<and> list_all is_hex_digit s)"

text \<open>
  The argument and result structs. The field of the result is \<open>TxHash\<close> in the source; it
  is renamed here because the block header has a field of that name.
\<close>

record BroadcastRawTransactionArgs =
  TxBytes :: string

record BroadcastRawTransactionResult =
  result_TxHash :: string

datatype 'e rpc_error = DecodeError hex_error | InsertTransactionError 'e

text \<open>
  \<open>BroadcastRawTransaction\<close>. The parameters are the code outside the sources:
  \<open>Keccak256Hash\<close> (\<open>crypto.Keccak256Hash\<close>), \<open>Hex\<close> (\<open>common.Hash.Hex\<close>) and
  \<open>InsertTransaction\<close>, the method of the mempool, from the mempool before the call to the
  mempool after it and the error it returns. The request is not used, and the RPC server
  passes allocated argument and result structs. The model returns the mempool, the result
  struct and the error of the call. The logging statement is left out.
\<close>

definition BroadcastRawTransaction ::
  "(Bytes \<Rightarrow> Hash) \<Rightarrow> (Hash \<Rightarrow> string) \<Rightarrow> ('mp \<Rightarrow> Bytes \<Rightarrow> 'mp \<times> 'e option)
     \<Rightarrow> 'mp \<Rightarrow> BroadcastRawTransactionArgs \<Rightarrow> BroadcastRawTransactionResult
     \<Rightarrow> 'mp \<times> BroadcastRawTransactionResult \<times> 'e rpc_error option" where
  "BroadcastRawTransaction Keccak256Hash Hex InsertTransaction mempool args result =
     (case hex_DecodeString (TxBytes args) of
        Inl err \<Rightarrow> (mempool, result, Some (DecodeError err))
      | Inr txBytes \<Rightarrow>
          (let h = Keccak256Hash txBytes;
               result' = result\<lparr>result_TxHash := Hex h\<rparr>;
               (mempool', err) = InsertTransaction mempool txBytes
           in (mempool', result', map_option InsertTransactionError err)))"

text \<open>
  Stand-ins for concrete runs: a mempool that is the list of the transactions inserted, and
  a rendering of a hash that prints its lowest byte after \<open>0x\<close>.
\<close>

definition list_InsertTransaction :: "Bytes list \<Rightarrow> Bytes \<Rightarrow> Bytes list \<times> unit option" where
  "list_InsertTransaction pool tx = (pool @ [tx], None)"

definition toy_Hex :: "Hash \<Rightarrow> string" where
  "toy_Hex h = ''0x'' @ hex_EncodeToString [ucast h]"

section \<open>Properties of block hashing\<close>

lemma BlockHeader_Hash_nil: "BlockHeader_Hash K E None = (0, None)"
  by (simp add: BlockHeader_Hash_def)

lemma BlockHeader_Hash_fresh:
  "hash h = 0 \<Longrightarrow> BlockHeader_Hash K E (Some h) = (K (E h), Some (h\<lparr>hash := K (E h)\<rparr>))"
  by (simp add: BlockHeader_Hash_def IsEmpty_def Let_def)

lemma BlockHeader_Hash_cached:
  "hash h \<noteq> 0 \<Longrightarrow> BlockHeader_Hash K E (Some h) = (hash h, Some h)"
  by (simp add: BlockHeader_Hash_def IsEmpty_def)

lemma BlockHeader_Hash_twice:
  "fst (BlockHeader_Hash K E (snd (BlockHeader_Hash K E h))) = fst (BlockHeader_Hash K E h)"
proof (cases h)
  case None
  then show ?thesis by (simp add: BlockHeader_Hash_nil)
next
  case (Some hdr)
  show ?thesis
  proof (cases "hash hdr = 0")
    case True
    note fresh = BlockHeader_Hash_fresh [OF True, of K E]
    show ?thesis
    proof (cases "K (E hdr) = 0")
      case True
      have "hdr\<lparr>hash := 0\<rparr> = hdr" using \<open>hash hdr = 0\<close> by simp
      with Some fresh True show ?thesis
        by (simp add: BlockHeader_Hash_def IsEmpty_def Let_def)
    next
      case False
      with Some fresh show ?thesis
        by (simp add: BlockHeader_Hash_cached)
    qed
  next
    case False
    with Some show ?thesis by (simp add: BlockHeader_Hash_cached)
  qed
qed

lemma ExtendedBlock_Hash_Txs:
  "map_sum id fst (ExtendedBlock_Hash K E (Some (eb\<lparr>Block := Some (b\<lparr>Txs := txs\<rparr>)\<rparr>))) =
   map_sum id fst (ExtendedBlock_Hash K E (Some (eb\<lparr>Block := Some b\<rparr>)))"
  by (simp add: ExtendedBlock_Hash_def Let_def split: prod.splits)

text \<open>
  A stale cache, as reached through the exported fields: hash a header, assign another epoch,
  hash again. The second call returns the hash of the old field values.
\<close>

lemma BlockHeader_Hash_stale:
  assumes "hash h = 0" and "K (E h) \<noteq> 0"
  shows "fst (BlockHeader_Hash K E
            (map_option (\<lambda>x. x\<lparr>Epoch := e\<rparr>) (snd (BlockHeader_Hash K E (Some h))))) = K (E h)"
  using assms by (simp add: BlockHeader_Hash_fresh BlockHeader_Hash_cached)

text \<open>
  The same run with the stand-ins: the fresh header hashes to 7; once the chain identifier is
  replaced by a longer one the encoding hashes to 10, and \<open>Hash\<close> still returns 7.
\<close>

lemma BlockHeader_Hash_stale_example:
  "BlockHeader_Hash toy_keccak toy_encode (Some header0) = (7, Some (header0\<lparr>hash := 7\<rparr>)) \<and>
   fst (BlockHeader_Hash toy_keccak toy_encode
          (Some (header0\<lparr>hash := 7, ChainID := ''testnet''\<rparr>))) = 7 \<and>
   toy_keccak (toy_encode (header0\<lparr>ChainID := ''testnet''\<rparr>)) = 10"
  by (simp add: BlockHeader_Hash_def IsEmpty_def toy_keccak_def toy_encode_def header0_def)

text \<open>
  C8: for a nil \<open>BlockHeader\<close> receiver \<open>Hash\<close> returns the all-zero hash, and for an
  \<open>ExtendedBlock\<close> whose inner \<open>Block\<close> is nil \<open>Hash\<close> returns the all-zero hash as
  well; both calls return normally (no nil dereference) and leave the receiver as it was.
\<close>

theorem Hash_of_nil_is_zero:
  "BlockHeader_Hash K E None = (0, None) \<and>
   ExtendedBlock_Hash K E (Some (eb\<lparr>Block := None\<rparr>)) = Inr (0, Some (eb\<lparr>Block := None\<rparr>))"
  by (simp add: BlockHeader_Hash_def ExtendedBlock_Hash_def)

text \<open>
  C6, as the claim states it, fails: \<open>Hash\<close> trusts a non-empty cache. The two headers below
  have the same eight fields and the cached hashes 1 and 2; whatever the hash function and the
  encoder are, \<open>Hash\<close> cannot be the hash of the encoding of the fields on both.
\<close>

theorem Hash_trusts_cache_counterexample:
  "\<not> (\<exists>K E.
        fst (BlockHeader_Hash K E (Some (header0\<lparr>hash := 1\<rparr>))) = K (E header0) \<and>
        fst (BlockHeader_Hash K E (Some (header0\<lparr>hash := 2\<rparr>))) = K (E header0))"
  by (simp add: BlockHeader_Hash_def IsEmpty_def)

text \<open>
  C6, amended: for every header whose cache is empty, \<open>Hash\<close> is the keccak-256 of the
  encoding of the header and is stored in the cache; for a header whose cache is not empty,
  \<open>Hash\<close> is the cached value and the header is left as it is; in both cases a second call
  on the header returns the same 32-byte value; and the hash of a block does not depend on
  its transaction list.
\<close>

theorem Hash_cached_on_first_computation:
  "(hash h = 0 \<longrightarrow>
      BlockHeader_Hash K E (Some h) = (K (E h), Some (h\<lparr>hash := K (E h)\<rparr>))) \<and>
   (hash h \<noteq> 0 \<longrightarrow> BlockHeader_Hash K E (Some h) = (hash h, Some h)) \<and>
   fst (BlockHeader_Hash K E (snd (BlockHeader_Hash K E (Some h)))) =
     fst (BlockHeader_Hash K E (Some h)) \<and>
   map_sum id fst (ExtendedBlock_Hash K E (Some (eb\<lparr>Block := Some (b\<lparr>Txs := txs\<rparr>)\<rparr>))) =
     map_sum id fst (ExtendedBlock_Hash K E (Some (eb\<lparr>Block := Some b\<rparr>)))"
  using BlockHeader_Hash_fresh [of h K E] BlockHeader_Hash_cached [of h K E]
    BlockHeader_Hash_twice [of K E "Some h"]
    ExtendedBlock_Hash_Txs [where K = K and E = E and eb = eb and b = b and txs = txs]
  by blast

theorem Hash_cached_on_first_computation_witness:
  "hash header0 = 0 \<and>
   BlockHeader_Hash toy_keccak toy_encode (Some header0) = (7, Some (header0\<lparr>hash := 7\<rparr>)) \<and>
   hash (header0\<lparr>hash := 7\<rparr>) \<noteq> 0 \<and>
   BlockHeader_Hash toy_keccak toy_encode (Some (header0\<lparr>hash := 7\<rparr>)) =
     (7, Some (header0\<lparr>hash := 7\<rparr>))"
proof -
  have e: "hash header0 = 0" by (simp add: header0_def)
  have k: "toy_keccak (toy_encode header0) = 7"
    by (simp add: toy_keccak_def toy_encode_def header0_def)
  have n: "hash (header0\<lparr>hash := 7\<rparr>) \<noteq> 0" by simp
  show ?thesis
    using Hash_cached_on_first_computation [of header0 toy_keccak toy_encode]
      Hash_cached_on_first_computation [of "header0\<lparr>hash := 7\<rparr>" toy_keccak toy_encode]
      e k n by simp
qed

section \<open>Properties of the engine\<close>

subsection \<open>Helper facts\<close>

lemma bytes_Compare_eq_0: "bytes_Compare a b = 0 \<longleftrightarrow> a = b"
  by (induction a b rule: bytes_Compare.induct) auto

lemma chan_try_send_buf:
  "chan_buf (chan_try_send c v) =
     (if length (chan_buf c) < chan_cap c then chan_buf c @ [v] else chan_buf c)"
  by (simp add: chan_try_send_def)

lemma finalizeBlock_skip:
  assumes "deref (blocks e) block = Inr b"
    and "deref (blocks e) (lastFinalizedBlock e) = Inr lf"
    and "bHash b = bHash lf"
  shows "finalizeBlock e block = Inr e"
  using assms by (simp add: finalizeBlock_def bytes_Compare_eq_0)

lemma finalizeBlock_new:
  assumes "deref (blocks e) block = Inr b"
    and "deref (blocks e) (lastFinalizedBlock e) = Inr lf"
    and "bHash b \<noteq> bHash lf"
    and "network e = Some i"
  shows "finalizeBlock e block =
           Inr (e\<lparr>lastFinalizedBlock := block,
                  finalizedBlocks := chan_try_send (finalizedBlocks e) (bBlock b)\<rparr>)"
  using assms by (simp add: finalizeBlock_def bytes_Compare_eq_0 ID_def)

text \<open>
  The state \<open>processCCBlock\<close> has reached when it comes to the epoch test: the pointer to
  the highest block with a commit certificate is updated, and the parent is finalized when
  it carries a certificate and is not the last finalized block.
\<close>

lemma processCCBlock_eq:
  assumes net: "network e = Some i"
    and cc: "deref (blocks e) ccBlock = Inr cc"
    and hc: "deref (blocks e) (highestCCBlock e) = Inr hc"
    and par: "deref (blocks e) (bParent cc) = Inr par"
    and lf: "deref (blocks e) (lastFinalizedBlock e) = Inr lf"
  shows "\<exists>e2. highestCCBlock e2 = (if bHeight hc < bHeight cc then ccBlock else highestCCBlock e)
           \<and> tip e2 = tip e \<and> epoch e2 = epoch e \<and> world e2 = world e \<and> blocks e2 = blocks e
           \<and> processCCBlock C e ccBlock =
               Inr (if epoch e \<le> bEpoch cc
                    then EpochManager_SetEpoch C (bEpoch cc + 1)
                           (enterNewEpoch C e2 (bEpoch cc + 1))
                    else e2)"
proof -
  define e1 where "e1 = (if bHeight hc < bHeight cc then e\<lparr>highestCCBlock := ccBlock\<rparr> else e)"
  have e1: "blocks e1 = blocks e" "network e1 = network e" "tip e1 = tip e"
    "epoch e1 = epoch e" "world e1 = world e" "lastFinalizedBlock e1 = lastFinalizedBlock e"
    "highestCCBlock e1 = (if bHeight hc < bHeight cc then ccBlock else highestCCBlock e)"
    by (simp_all add: e1_def)
  have "\<exists>e2. (if bCommitCertificate par \<noteq> None then finalizeBlock e1 (bParent cc) else Inr e1)
               = Inr e2
            \<and> highestCCBlock e2 = highestCCBlock e1 \<and> tip e2 = tip e \<and> epoch e2 = epoch e
            \<and> world e2 = world e \<and> blocks e2 = blocks e"
  proof (cases "bCommitCertificate par \<noteq> None \<and> bHash par \<noteq> bHash lf")
    case True
    have "finalizeBlock e1 (bParent cc) =
            Inr (e1\<lparr>lastFinalizedBlock := bParent cc,
                    finalizedBlocks := chan_try_send (finalizedBlocks e1) (bBlock par)\<rparr>)"
      by (rule finalizeBlock_new [where lf = lf and i = i]) (use True par lf net e1 in simp_all)
    with True e1 show ?thesis by simp
  next
    case False
    show ?thesis
    proof (cases "bCommitCertificate par \<noteq> None")
      case True
      with False have "bHash par = bHash lf" by simp
      then have "finalizeBlock e1 (bParent cc) = Inr e1"
        by (intro finalizeBlock_skip [where b = par and lf = lf]) (use par lf e1 in simp_all)
      with True e1 show ?thesis by simp
    next
      case False
      with e1 show ?thesis by simp
    qed
  qed
  then obtain e2 where
    step: "(if bCommitCertificate par \<noteq> None then finalizeBlock e1 (bParent cc) else Inr e1)
             = Inr e2"
    and e2: "highestCCBlock e2 = highestCCBlock e1" "tip e2 = tip e" "epoch e2 = epoch e"
      "world e2 = world e" "blocks e2 = blocks e"
    by blast
  have "processCCBlock C e ccBlock =
          Inr (if epoch e \<le> bEpoch cc
               then EpochManager_SetEpoch C (bEpoch cc + 1) (enterNewEpoch C e2 (bEpoch cc + 1))
               else e2)"
    unfolding processCCBlock_def
    using net cc hc par step e2 e1
    by (simp add: ID_def Let_def e1_def [symmetric])
  with e1 e2 show ?thesis by auto
qed

lemma only_worldD: "only_world f \<Longrightarrow> \<exists>w'. f e = e\<lparr>world := w'\<rparr>"
  unfolding only_world_def by metis

lemma is_ancestor_refl: "is_ancestor mem a a"
  unfolding is_ancestor_def by (cases "length mem") simp_all

lemma NewEngine_eq:
  assumes "only_world (ProposerStrategy_Init C)"
    and "only_world (ReplicaStrategy_Init C)"
    and "only_world (EpochManager_Init C)"
    and "only_world (Network_AddMessageHandler C)"
  shows "\<exists>w'. NewEngine C mem w (Some ch) (Some i) validators =
                Inr (engine_literal mem w' ch (Some i) validators)"
proof -
  let ?e = "engine_literal mem w ch (Some i) validators :: ('a, 'b) DefaultEngine"
  have lit: "(engine_literal mem w ch (Some i) validators :: ('a, 'b) DefaultEngine)\<lparr>world := x\<rparr>
               = engine_literal mem x ch (Some i) validators" for x w
    by (simp add: engine_literal_def)
  from only_worldD [OF assms(1)] obtain w1 where
    1: "ProposerStrategy_Init C ?e = engine_literal mem w1 ch (Some i) validators"
    using lit by metis
  from only_worldD [OF assms(2)] obtain w2 where
    2: "ReplicaStrategy_Init C (engine_literal mem w1 ch (Some i) validators)
          = engine_literal mem w2 ch (Some i) validators"
    using lit by metis
  from only_worldD [OF assms(3)] obtain w3 where
    3: "EpochManager_Init C (engine_literal mem w2 ch (Some i) validators)
          = engine_literal mem w3 ch (Some i) validators"
    using lit by metis
  from only_worldD [OF assms(4)] obtain w4 where
    4: "Network_AddMessageHandler C (engine_literal mem w3 ch (Some i) validators)
          = engine_literal mem w4 ch (Some i) validators"
    using lit by metis
  have "NewEngine C mem w (Some ch) (Some i) validators =
          Inr (engine_literal mem w4 ch (Some i) validators)"
    by (simp add: NewEngine_def Let_def 1 2 3 4)
  then show ?thesis ..
qed

lemma NewEngine_nil:
  "NewEngine C mem w None net validators = Inl NilPointerDereference"
  "NewEngine C mem w (Some ch) None validators = Inl NilPointerDereference"
  by (simp_all add: NewEngine_def Let_def)

lemma only_world_logging:
  "only_world (ProposerStrategy_Init logging)"
  "only_world (ReplicaStrategy_Init logging)"
  "only_world (EpochManager_Init logging)"
  "only_world (Network_AddMessageHandler logging)"
  by (simp_all add: only_world_def logging_def)

lemma keeps_epoch_logging: "keeps_epoch logging"
  by (simp add: keeps_epoch_def logging_def)

lemma engine0_fields:
  "network engine0 = Some ''node''"
  "blocks engine0 = [block0, block1, block2]"
  "highestCCBlock engine0 = Some 0"
  "lastFinalizedBlock engine0 = Some 0"
  "tip engine0 = Some 0"
  "epoch engine0 = 0"
  "world engine0 = []"
  "finalizedBlocks engine0 = \<lparr>chan_cap = 5000, chan_buf = []\<rparr>"
  "incoming engine0 = \<lparr>chan_cap = 5000, chan_buf = []\<rparr>"
  by (simp_all add: engine0_def engine_literal_def make_chan_def)

lemma deref_three:
  "deref [x0, x1, x2] (Some 0) = Inr x0"
  "deref [x0, x1, x2] (Some 1) = Inr x1"
  "deref [x0, x1, x2] (Some (Suc 0)) = Inr x1"
  "deref [x0, x1, x2] (Some 2) = Inr x2"
  by (simp_all add: deref_def)

text \<open>The \<open>uint32\<close> successor wraps at the largest epoch.\<close>

lemma newEpoch_wraps: "(4294967295 :: 32 word) + 1 = 0"
  by simp

text \<open>
  The inbound queue is filled by the calls themselves: as long as the messages fit, each
  \<open>HandleMessage\<close> appends one.
\<close>

lemma deliver_fits:
  "length (chan_buf (incoming e)) + length ms \<le> chan_cap (incoming e) \<Longrightarrow>
   deliver e ms = Some (e\<lparr>incoming := (incoming e)\<lparr>chan_buf := chan_buf (incoming e) @ ms\<rparr>\<rparr>)"
proof (induction ms arbitrary: e)
  case Nil
  then show ?case by simp
next
  case (Cons m ms)
  let ?e' = "e\<lparr>incoming := (incoming e)\<lparr>chan_buf := chan_buf (incoming e) @ [m]\<rparr>\<rparr>"
  from Cons.prems have "DefaultEngine_HandleMessage e m = Some ?e'"
    by (simp add: DefaultEngine_HandleMessage_def chan_send_def)
  moreover from Cons.prems have "deliver ?e' ms =
      Some (?e'\<lparr>incoming := (incoming ?e')\<lparr>chan_buf := chan_buf (incoming ?e') @ ms\<rparr>\<rparr>)"
    by (intro Cons.IH) simp
  ultimately show ?case by simp
qed

lemma engine_full_reached: "deliver engine0 (replicate 5000 0) = Some engine_full"
proof -
  have "deliver engine0 (replicate 5000 0) =
          Some (engine0\<lparr>incoming :=
                  (incoming engine0)\<lparr>chan_buf := chan_buf (incoming engine0) @ replicate 5000 0\<rparr>\<rparr>)"
    by (rule deliver_fits) (simp add: engine0_fields)
  then show ?thesis by (simp add: engine_full_def engine0_fields)
qed

subsection \<open>Finalization\<close>

text \<open>
  C5: a call \<open>finalize(X)\<close> where the hash of \<open>X\<close> equals the hash of the last finalized
  block is a no-op: the call returns, the engine state after it is the engine state before
  it (the last finalized block, every other field and the store of blocks), and so nothing
  is put on the stream of finalized blocks.
\<close>

theorem finalizeBlock_same_hash_noop:
  assumes "deref (blocks e) X = Inr b"
    and "deref (blocks e) (lastFinalizedBlock e) = Inr lf"
    and "bHash b = bHash lf"
  shows "finalizeBlock e X = Inr e"
  using assms by (rule finalizeBlock_skip)

theorem finalizeBlock_same_hash_noop_witness:
  "deref (blocks engine0) (Some 0) = Inr block0 \<and>
   deref (blocks engine0) (lastFinalizedBlock engine0) = Inr block0 \<and>
   bHash block0 = bHash block0 \<and>
   finalizeBlock engine0 (Some 0) = Inr engine0"
proof -
  have 1: "deref (blocks engine0) (Some 0) = Inr block0"
    by (simp add: engine0_fields deref_three)
  have 2: "deref (blocks engine0) (lastFinalizedBlock engine0) = Inr block0"
    by (simp add: engine0_fields deref_three)
  from finalizeBlock_same_hash_noop [OF 1 2 refl] 1 2 show ?thesis by simp
qed

text \<open>
  C1, as the claim states it, fails: \<open>finalizeBlock\<close> walks no path and marks no block. In
  the store of \<open>engine0\<close> the root is finalized and is the last finalized block, block 1 is
  its child and block 2 the child of block 1. Finalizing block 2 puts the block of block 2
  alone on the stream (and not the block of block 1 before it), and leaves block 1 and
  block 2 with the status they had.
\<close>

theorem finalizeBlock_walks_no_path_counterexample:
  "lastFinalizedBlock engine0 = Some 0 \<and>
   map bParent (blocks engine0) = [None, Some 0, Some 1] \<and>
   map bBlock (blocks engine0) = [Some 100, Some 101, Some 102] \<and>
   (\<exists>e'. finalizeBlock engine0 (Some 2) = Inr e' \<and>
         lastFinalizedBlock e' = Some 2 \<and>
         chan_buf (finalizedBlocks e') = [Some 102] \<and>
         map bStatus (blocks e') =
           [BlockStatusFinalized, BlockStatusCommitted, BlockStatusCommitted])"
proof -
  have "finalizeBlock engine0 (Some 2) =
          Inr (engine0\<lparr>lastFinalizedBlock := Some 2,
                 finalizedBlocks := chan_try_send (finalizedBlocks engine0) (bBlock block2)\<rparr>)"
    by (rule finalizeBlock_new [where lf = block0 and i = "''node''"])
      (simp_all add: engine0_fields deref_three block0_def block2_def)
  then show ?thesis
    by (simp add: engine0_fields chan_try_send_def block0_def block1_def block2_def)
qed

text \<open>
  C1, amended: for every call \<open>finalize(X)\<close> where the hash of \<open>X\<close> differs from the hash
  of the last finalized block, the engine sets \<open>lastFinalizedBlock := X\<close> and then offers the
  block of \<open>X\<close>, and no other block, to the stream of finalized blocks without blocking
  (it is appended when the buffer has room and dropped otherwise). No block of the store is
  changed, and no other field of the engine.
\<close>

theorem finalizeBlock_publishes_X_only:
  assumes "deref (blocks e) X = Inr b"
    and "deref (blocks e) (lastFinalizedBlock e) = Inr lf"
    and "bHash b \<noteq> bHash lf"
    and "network e = Some i"
  shows "\<exists>e'. finalizeBlock e X = Inr e' \<and>
           lastFinalizedBlock e' = X \<and>
           chan_buf (finalizedBlocks e') =
             (if length (chan_buf (finalizedBlocks e)) < chan_cap (finalizedBlocks e)
              then chan_buf (finalizedBlocks e) @ [bBlock b]
              else chan_buf (finalizedBlocks e)) \<and>
           blocks e' = blocks e \<and>
           e' = e\<lparr>lastFinalizedBlock := X, finalizedBlocks := finalizedBlocks e'\<rparr>"
  using finalizeBlock_new [OF assms] by (simp add: chan_try_send_buf)

theorem finalizeBlock_publishes_X_only_witness:
  "deref (blocks engine0) (Some 1) = Inr block1 \<and>
   deref (blocks engine0) (lastFinalizedBlock engine0) = Inr block0 \<and>
   bHash block1 \<noteq> bHash block0 \<and>
   network engine0 = Some ''node'' \<and>
   (\<exists>e'. finalizeBlock engine0 (Some 1) = Inr e' \<and>
         lastFinalizedBlock e' = Some 1 \<and>
         chan_buf (finalizedBlocks e') = [Some 101] \<and>
         blocks e' = blocks engine0)"
proof -
  have 1: "deref (blocks engine0) (Some 1) = Inr block1"
    by (simp add: engine0_fields deref_three)
  have 2: "deref (blocks engine0) (lastFinalizedBlock engine0) = Inr block0"
    by (simp add: engine0_fields deref_three)
  have 3: "bHash block1 \<noteq> bHash block0"
    by (simp add: block0_def block1_def)
  have 4: "network engine0 = Some ''node''"
    by (simp add: engine0_fields)
  from finalizeBlock_publishes_X_only [OF 1 2 3 4] obtain e' where
    "finalizeBlock engine0 (Some 1) = Inr e'" "lastFinalizedBlock e' = Some 1"
    "chan_buf (finalizedBlocks e') = [bBlock block1]" "blocks e' = blocks engine0"
    by (auto simp: engine0_fields)
  then have "\<exists>e'. finalizeBlock engine0 (Some 1) = Inr e' \<and> lastFinalizedBlock e' = Some 1 \<and>
      chan_buf (finalizedBlocks e') = [Some 101] \<and> blocks e' = blocks engine0"
    by (simp add: block1_def)
  with 1 2 3 4 show ?thesis by blast
qed

subsection \<open>Processing a commit certificate\<close>

text \<open>
  C2, as the claim states it, fails: \<open>processCCBlock\<close> never assigns \<open>tip\<close>. With the
  engine at epoch 5, the root as highest block with a certificate and as tip, a certificate
  for block 1 (height 1, above the root's height 0; epoch 1, so the epoch does not
  advance and no strategy is called) moves \<open>highestCCBlock\<close> to block 1 and leaves \<open>tip\<close>
  at the root, while the deepest descendant of block 1 is block 2.
\<close>

theorem processCCBlock_keeps_tip_counterexample:
  "bHeight block0 < bHeight block1 \<and>
   (\<exists>e'. processCCBlock logging (engine0\<lparr>epoch := 5\<rparr>) (Some 1) = Inr e' \<and>
         highestCCBlock e' = Some 1 \<and>
         tip e' = Some 0 \<and>
         world e' = [] \<and>
         FindDeepestDescendant (blocks e') (highestCCBlock e') = Inr (Some 2, 1))"
proof -
  let ?e = "engine0\<lparr>epoch := 5\<rparr>"
  have h: "bHeight block0 < bHeight block1"
    by (simp add: block0_def block1_def)
  from processCCBlock_eq [of ?e "''node''" "Some 1" block1 block0 block0 block0 logging]
  obtain e2 where e2: "highestCCBlock e2 = Some 1" "tip e2 = Some 0" "world e2 = []"
      "blocks e2 = [block0, block1, block2]"
    and run: "processCCBlock logging ?e (Some 1) =
                Inr (if epoch ?e \<le> bEpoch block1
                     then EpochManager_SetEpoch logging (bEpoch block1 + 1)
                            (enterNewEpoch logging e2 (bEpoch block1 + 1))
                     else e2)"
    using h by (auto simp: engine0_fields deref_three block1_def)
  have "\<not> epoch ?e \<le> bEpoch block1"
    by (simp add: block1_def word_le_nat_alt)
  with run have "processCCBlock logging ?e (Some 1) = Inr e2" by simp
  moreover have "FindDeepestDescendant [block0, block1, block2] (Some 1) = Inr (Some 2, 1)"
    by (simp add: FindDeepestDescendant_def numeral_3_eq_3 block0_def block1_def block2_def)
  ultimately show ?thesis using h e2 by simp
qed

text \<open>
  C2, amended: for every newly formed commit certificate on a block \<open>B\<close> whose height is
  strictly greater than the height of \<open>highestCCBlock\<close>, processing the certificate sets
  \<open>highestCCBlock := B\<close> and does not recompute \<open>tip\<close>: in the state the engine has
  reached when it comes to the epoch test, and returns when the epoch does not advance,
  \<open>highestCCBlock\<close> is \<open>B\<close> and \<open>tip\<close> is what it was. The tip becomes the deepest
  descendant of \<open>highestCCBlock\<close> only where \<open>setTip\<close> is called.
\<close>

theorem processCCBlock_sets_highestCCBlock:
  assumes "network e = Some i"
    and "deref (blocks e) B = Inr cc"
    and "deref (blocks e) (highestCCBlock e) = Inr hc"
    and "deref (blocks e) (bParent cc) = Inr par"
    and "deref (blocks e) (lastFinalizedBlock e) = Inr lf"
    and "bHeight hc < bHeight cc"
  shows "\<exists>e2. highestCCBlock e2 = B \<and> tip e2 = tip e \<and>
           processCCBlock C e B =
             Inr (if epoch e \<le> bEpoch cc
                  then EpochManager_SetEpoch C (bEpoch cc + 1)
                         (enterNewEpoch C e2 (bEpoch cc + 1))
                  else e2) \<and>
           (\<forall>d k. FindDeepestDescendant (blocks e2) (highestCCBlock e2) = Inr (d, k) \<longrightarrow>
                  setTip e2 = Inr (e2\<lparr>tip := d\<rparr>, d))"
proof -
  from processCCBlock_eq [OF assms(1-5), of C] obtain e2 where
    "highestCCBlock e2 = B" "tip e2 = tip e"
    "processCCBlock C e B =
       Inr (if epoch e \<le> bEpoch cc
            then EpochManager_SetEpoch C (bEpoch cc + 1) (enterNewEpoch C e2 (bEpoch cc + 1))
            else e2)"
    using assms(6) by auto
  moreover have "\<forall>d k. FindDeepestDescendant (blocks e2) (highestCCBlock e2) = Inr (d, k) \<longrightarrow>
      setTip e2 = Inr (e2\<lparr>tip := d\<rparr>, d)"
    by (simp add: setTip_def)
  ultimately show ?thesis by blast
qed

theorem processCCBlock_sets_highestCCBlock_witness:
  "network engine0 = Some ''node'' \<and>
   deref (blocks engine0) (Some 2) = Inr block2 \<and>
   deref (blocks engine0) (highestCCBlock engine0) = Inr block0 \<and>
   deref (blocks engine0) (bParent block2) = Inr block1 \<and>
   deref (blocks engine0) (lastFinalizedBlock engine0) = Inr block0 \<and>
   bHeight block0 < bHeight block2 \<and>
   (\<exists>e2. highestCCBlock e2 = Some 2 \<and> tip e2 = Some 0 \<and>
      processCCBlock logging engine0 (Some 2) =
        Inr (EpochManager_SetEpoch logging 3 (enterNewEpoch logging e2 3)))"
proof -
  have 1: "network engine0 = Some ''node''"
    and 2: "deref (blocks engine0) (Some 2) = Inr block2"
    and 3: "deref (blocks engine0) (highestCCBlock engine0) = Inr block0"
    and 4: "deref (blocks engine0) (bParent block2) = Inr block1"
    and 5: "deref (blocks engine0) (lastFinalizedBlock engine0) = Inr block0"
    and 6: "bHeight block0 < bHeight block2"
    by (simp_all add: engine0_fields deref_three block0_def block2_def)
  from processCCBlock_sets_highestCCBlock [OF 1 2 3 4 5 6, of logging]
  have "\<exists>e2. highestCCBlock e2 = Some 2 \<and> tip e2 = Some 0 \<and>
      processCCBlock logging engine0 (Some 2) =
        Inr (EpochManager_SetEpoch logging 3 (enterNewEpoch logging e2 3))"
    by (auto simp: engine0_fields block2_def)
  with 1 2 3 4 5 6 show ?thesis by blast
qed

text \<open>
  C4: for every newly formed commit certificate on a block \<open>B\<close>, if the epoch of \<open>B\<close> is
  at least the engine's current epoch, processing the certificate sets the epoch to the epoch
  of \<open>B\<close> plus one (the \<open>uint32\<close> successor), then notifies the proposer strategy and the
  replica strategy of the new epoch, and then informs the epoch manager; if the epoch of
  \<open>B\<close> is below the current epoch, the epoch is what it was and no collaborator is called.
  Where the three callbacks leave the engine's epoch field alone, the epoch after the call is
  the new epoch.
\<close>

theorem processCCBlock_advances_epoch:
  assumes "network e = Some i"
    and "deref (blocks e) B = Inr cc"
    and "deref (blocks e) (highestCCBlock e) = Inr hc"
    and "deref (blocks e) (bParent cc) = Inr par"
    and "deref (blocks e) (lastFinalizedBlock e) = Inr lf"
  shows "\<exists>e2. epoch e2 = epoch e \<and> world e2 = world e \<and>
           (epoch e \<le> bEpoch cc \<longrightarrow>
              processCCBlock C e B =
                Inr (EpochManager_SetEpoch C (bEpoch cc + 1)
                      (ReplicaStrategy_EnterNewEpoch C (bEpoch cc + 1)
                        (ProposerStrategy_EnterNewEpoch C (bEpoch cc + 1)
                          (e2\<lparr>epoch := bEpoch cc + 1\<rparr>))))) \<and>
           (bEpoch cc < epoch e \<longrightarrow> processCCBlock C e B = Inr e2) \<and>
           (keeps_epoch C \<longrightarrow>
              (\<exists>e'. processCCBlock C e B = Inr e' \<and>
                    epoch e' = (if epoch e \<le> bEpoch cc then bEpoch cc + 1 else epoch e)))"
proof -
  from processCCBlock_eq [OF assms, of C] obtain e2 where
    e2: "epoch e2 = epoch e" "world e2 = world e"
    and run: "processCCBlock C e B =
       Inr (if epoch e \<le> bEpoch cc
            then EpochManager_SetEpoch C (bEpoch cc + 1) (enterNewEpoch C e2 (bEpoch cc + 1))
            else e2)"
    by auto
  have up: "epoch e \<le> bEpoch cc \<longrightarrow>
      processCCBlock C e B =
        Inr (EpochManager_SetEpoch C (bEpoch cc + 1)
              (ReplicaStrategy_EnterNewEpoch C (bEpoch cc + 1)
                (ProposerStrategy_EnterNewEpoch C (bEpoch cc + 1)
                  (e2\<lparr>epoch := bEpoch cc + 1\<rparr>))))"
    using run by (simp add: enterNewEpoch_def Let_def)
  have stay: "bEpoch cc < epoch e \<longrightarrow> processCCBlock C e B = Inr e2"
    using run by (simp add: not_le [symmetric])
  have "keeps_epoch C \<longrightarrow>
      (\<exists>e'. processCCBlock C e B = Inr e' \<and>
            epoch e' = (if epoch e \<le> bEpoch cc then bEpoch cc + 1 else epoch e))"
    using run e2 by (simp add: keeps_epoch_def enterNewEpoch_def Let_def)
  with e2 up stay show ?thesis by blast
qed

theorem processCCBlock_advances_epoch_witness:
  "network engine0 = Some ''node'' \<and>
   deref (blocks engine0) (Some 2) = Inr block2 \<and>
   deref (blocks engine0) (highestCCBlock engine0) = Inr block0 \<and>
   deref (blocks engine0) (bParent block2) = Inr block1 \<and>
   deref (blocks engine0) (lastFinalizedBlock engine0) = Inr block0 \<and>
   epoch engine0 \<le> bEpoch block2 \<and>
   keeps_epoch (logging :: (nat, event list) collaborators) \<and>
   (\<exists>e'. processCCBlock logging engine0 (Some 2) = Inr e' \<and>
         epoch e' = 3 \<and>
         world e' = [ProposerEnterNewEpoch 3, ReplicaEnterNewEpoch 3, SetEpoch 3])"
proof -
  have 1: "network engine0 = Some ''node''"
    and 2: "deref (blocks engine0) (Some 2) = Inr block2"
    and 3: "deref (blocks engine0) (highestCCBlock engine0) = Inr block0"
    and 4: "deref (blocks engine0) (bParent block2) = Inr block1"
    and 5: "deref (blocks engine0) (lastFinalizedBlock engine0) = Inr block0"
    and 6: "epoch engine0 \<le> bEpoch block2"
    by (simp_all add: engine0_fields deref_three block2_def)
  from processCCBlock_advances_epoch [OF 1 2 3 4 5, of logging] 6 obtain e2 where
    "world e2 = []"
    "processCCBlock logging engine0 (Some 2) =
       Inr (EpochManager_SetEpoch logging (bEpoch block2 + 1)
             (ReplicaStrategy_EnterNewEpoch logging (bEpoch block2 + 1)
               (ProposerStrategy_EnterNewEpoch logging (bEpoch block2 + 1)
                 (e2\<lparr>epoch := bEpoch block2 + 1\<rparr>))))"
    by (auto simp: engine0_fields)
  then have "\<exists>e'. processCCBlock logging engine0 (Some 2) = Inr e' \<and> epoch e' = 3 \<and>
      world e' = [ProposerEnterNewEpoch 3, ReplicaEnterNewEpoch 3, SetEpoch 3]"
    by (simp add: logging_def block2_def)
  with 1 2 3 4 5 6 keeps_epoch_logging show ?thesis by blast
qed

subsection \<open>The inbound queue\<close>

text \<open>
  C3, as the claim states it, fails: \<open>HandleMessage\<close> is a plain channel send. With 5000
  messages waiting in the inbound queue of capacity 5000, a state the deliveries themselves
  lead to (\<open>engine_full_reached\<close>), the call does not drop the message and return: it has no
  result, as the producer stays blocked until the queue has room.
\<close>

theorem HandleMessage_full_queue_counterexample:
  "chan_cap (incoming engine_full) = 5000 \<and>
   length (chan_buf (incoming engine_full)) = 5000 \<and>
   DefaultEngine_HandleMessage engine_full 7 = None"
  by (simp add: engine_full_def DefaultEngine_HandleMessage_def chan_send_def)

text \<open>
  C3, amended: the inbound queue of a new engine has capacity 5000. For every inbound message
  delivered while the queue holds fewer messages than its capacity, \<open>HandleMessage\<close>
  appends the message to the queue and returns; delivered while the queue is full, the
  producer blocks (the call has no result while the queue stays full). In no case does the
  call return with the message dropped.
\<close>

theorem HandleMessage_sends_or_blocks:
  "chan_cap (incoming (engine_literal mem w ch net validators :: ('m, 'w) DefaultEngine)) = 5000 \<and>
   (length (chan_buf (incoming (e :: ('m, 'w) DefaultEngine))) < chan_cap (incoming e) \<longrightarrow>
      DefaultEngine_HandleMessage e msg =
        Some (e\<lparr>incoming := (incoming e)\<lparr>chan_buf := chan_buf (incoming e) @ [msg]\<rparr>\<rparr>)) \<and>
   (chan_cap (incoming e) \<le> length (chan_buf (incoming e)) \<longrightarrow>
      DefaultEngine_HandleMessage e msg = None) \<and>
   (\<forall>e'. DefaultEngine_HandleMessage e msg = Some e' \<longrightarrow>
      chan_buf (incoming e') = chan_buf (incoming e) @ [msg])"
  by (auto simp: DefaultEngine_HandleMessage_def chan_send_def engine_literal_def make_chan_def)

theorem HandleMessage_sends_or_blocks_witness:
  "length (chan_buf (incoming engine0)) < chan_cap (incoming engine0) \<and>
   DefaultEngine_HandleMessage engine0 7 =
     Some (engine0\<lparr>incoming := \<lparr>chan_cap = 5000, chan_buf = [7]\<rparr>\<rparr>) \<and>
   chan_cap (incoming engine_full) \<le> length (chan_buf (incoming engine_full)) \<and>
   DefaultEngine_HandleMessage engine_full 7 = None"
proof -
  have 1: "length (chan_buf (incoming engine0)) < chan_cap (incoming engine0)"
    by (simp add: engine0_fields)
  have 2: "chan_cap (incoming engine_full) \<le> length (chan_buf (incoming engine_full))"
    by (simp add: engine_full_def)
  note inst = HandleMessage_sends_or_blocks [where mem = "[]" and w = "[]"
      and ch = "\<lparr>Root = None\<rparr>" and net = None and validators = None and msg = 7]
  from inst [of engine0] 1
  have a: "DefaultEngine_HandleMessage engine0 7 =
      Some (engine0\<lparr>incoming := \<lparr>chan_cap = 5000, chan_buf = [7]\<rparr>\<rparr>)"
    by (simp add: engine0_fields)
  from inst [of engine_full] 2
  have b: "DefaultEngine_HandleMessage engine_full 7 = None"
    by blast
  from 1 2 a b show ?thesis by blast
qed

subsection \<open>The initial state\<close>

text \<open>
  C9: when \<open>NewEngine\<close> returns (it does for a chain and a network that are not nil),
  \<open>highestCCBlock\<close>, \<open>lastFinalizedBlock\<close> and \<open>tip\<close> all equal the root of the chain,
  the epoch is 0, and the vote log and the map of collected votes are empty; so the last
  finalized block is an ancestor of (here, equal to) the tip and the highest block with a
  certificate. These are the values of the struct literal, which \<open>NewEngine\<close> hands to
  the \<open>Init\<close> methods of the strategies and of the epoch manager and to
  \<open>AddMessageHandler\<close> before it returns; they are the values after the return where
  these four calls change no field of the engine.
\<close>

theorem NewEngine_initial_state:
  "(\<exists>e0. e0 = engine_literal mem w ch (Some i) validators \<and>
      NewEngine C mem w (Some ch) (Some i) validators =
        Inr (Network_AddMessageHandler C (EpochManager_Init C
              (ReplicaStrategy_Init C (ProposerStrategy_Init C e0)))) \<and>
      highestCCBlock e0 = Root ch \<and> lastFinalizedBlock e0 = Root ch \<and> tip e0 = Root ch \<and>
      epoch e0 = 0 \<and> voteLog e0 = Map.empty \<and> collectedVotes e0 = Map.empty) \<and>
   (only_world (ProposerStrategy_Init C) \<and> only_world (ReplicaStrategy_Init C) \<and>
    only_world (EpochManager_Init C) \<and> only_world (Network_AddMessageHandler C) \<longrightarrow>
      (\<exists>e. NewEngine C mem w (Some ch) (Some i) validators = Inr e \<and>
           highestCCBlock e = Root ch \<and>
           lastFinalizedBlock e = Root ch \<and>
           tip e = Root ch \<and>
           epoch e = 0 \<and>
           voteLog e = Map.empty \<and>
           collectedVotes e = Map.empty \<and>
           is_ancestor (blocks e) (lastFinalizedBlock e) (tip e) \<and>
           is_ancestor (blocks e) (lastFinalizedBlock e) (highestCCBlock e)))"
proof (intro conjI impI)
  show "\<exists>e0. e0 = engine_literal mem w ch (Some i) validators \<and>
      NewEngine C mem w (Some ch) (Some i) validators =
        Inr (Network_AddMessageHandler C (EpochManager_Init C
              (ReplicaStrategy_Init C (ProposerStrategy_Init C e0)))) \<and>
      highestCCBlock e0 = Root ch \<and> lastFinalizedBlock e0 = Root ch \<and> tip e0 = Root ch \<and>
      epoch e0 = 0 \<and> voteLog e0 = Map.empty \<and> collectedVotes e0 = Map.empty"
    by (simp add: NewEngine_def Let_def engine_literal_def)
next
  assume "only_world (ProposerStrategy_Init C) \<and> only_world (ReplicaStrategy_Init C) \<and>
    only_world (EpochManager_Init C) \<and> only_world (Network_AddMessageHandler C)"
  then obtain w' where
    "NewEngine C mem w (Some ch) (Some i) validators =
       Inr (engine_literal mem w' ch (Some i) validators)"
    using NewEngine_eq [of C mem w ch i validators] by blast
  then show "\<exists>e. NewEngine C mem w (Some ch) (Some i) validators = Inr e \<and>
           highestCCBlock e = Root ch \<and>
           lastFinalizedBlock e = Root ch \<and>
           tip e = Root ch \<and>
           epoch e = 0 \<and>
           voteLog e = Map.empty \<and>
           collectedVotes e = Map.empty \<and>
           is_ancestor (blocks e) (lastFinalizedBlock e) (tip e) \<and>
           is_ancestor (blocks e) (lastFinalizedBlock e) (highestCCBlock e)"
    by (simp add: engine_literal_def is_ancestor_refl)
qed

theorem NewEngine_initial_state_witness:
  "only_world (ProposerStrategy_Init (logging :: (nat, event list) collaborators)) \<and>
   only_world (ReplicaStrategy_Init (logging :: (nat, event list) collaborators)) \<and>
   only_world (EpochManager_Init (logging :: (nat, event list) collaborators)) \<and>
   only_world (Network_AddMessageHandler (logging :: (nat, event list) collaborators)) \<and>
   (\<exists>e :: (nat, event list) DefaultEngine.
      NewEngine logging [block0, block1, block2] [] (Some \<lparr>Root = Some 0\<rparr>) (Some ''node'') None
        = Inr e \<and>
      highestCCBlock e = Some 0 \<and> lastFinalizedBlock e = Some 0 \<and> tip e = Some 0 \<and>
      epoch e = 0 \<and> voteLog e = Map.empty \<and> collectedVotes e = Map.empty)"
proof -
  have ow:
    "only_world (ProposerStrategy_Init (logging :: (nat, event list) collaborators))"
    "only_world (ReplicaStrategy_Init (logging :: (nat, event list) collaborators))"
    "only_world (EpochManager_Init (logging :: (nat, event list) collaborators))"
    "only_world (Network_AddMessageHandler (logging :: (nat, event list) collaborators))"
    by (rule only_world_logging)+
  from NewEngine_initial_state [of "[block0, block1, block2]" "[]" "\<lparr>Root = Some 0\<rparr>"
      "''node''" None logging] ow
  have "\<exists>e :: (nat, event list) DefaultEngine.
      NewEngine logging [block0, block1, block2] [] (Some \<lparr>Root = Some 0\<rparr>) (Some ''node'') None
        = Inr e \<and>
      highestCCBlock e = Some 0 \<and> lastFinalizedBlock e = Some 0 \<and> tip e = Some 0 \<and>
      epoch e = 0 \<and> voteLog e = Map.empty \<and> collectedVotes e = Map.empty"
    by auto
  with ow show ?thesis by blast
qed

section \<open>Properties of the mempool message handler\<close>

text \<open>
  C10: for every message whose channel is not \<open>ChannelIDTransaction\<close>, \<open>HandleMessage\<close>
  returns an error and does not call \<open>ProcessTransaction\<close>: the result is the same
  whatever \<open>ProcessTransaction\<close> would do, and the mempool after the call is the mempool
  before it.
\<close>

theorem HandleMessage_wrong_channel:
  assumes "ChannelID message \<noteq> ChannelIDTransaction"
  shows "MempoolMessageHandler_HandleMessage ChannelIDTransaction ProcessTransaction mempool message
           = Inr (mempool, Some (InvalidChannel (ChannelID message)))"
  using assms by (simp add: MempoolMessageHandler_HandleMessage_def)

theorem HandleMessage_wrong_channel_witness:
  "ChannelID \<lparr>PeerID = ''peer'', ChannelID = (3 :: 8 word),
      Content = PtrMempoolTransaction (Some \<lparr>rawTransaction = [1, 2]\<rparr>)\<rparr> \<noteq> 5 \<and>
   MempoolMessageHandler_HandleMessage (5 :: 8 word) counting_ProcessTransaction 0
     \<lparr>PeerID = ''peer'', ChannelID = 3,
      Content = PtrMempoolTransaction (Some \<lparr>rawTransaction = [1, 2]\<rparr>)\<rparr>
     = Inr (0, Some (InvalidChannel 3))"
proof -
  let ?m = "\<lparr>PeerID = ''peer'', ChannelID = (3 :: 8 word),
      Content = PtrMempoolTransaction (Some \<lparr>rawTransaction = [1, 2]\<rparr>)\<rparr>"
  have 1: "ChannelID ?m \<noteq> 5" by simp
  from HandleMessage_wrong_channel [OF 1, of counting_ProcessTransaction 0] 1
  show ?thesis by simp
qed

section \<open>Properties of the RPC entry point\<close>

lemma fromHexChar_Some_iff: "(\<exists>v. fromHexChar c = Some v) \<longleftrightarrow> is_hex_digit c"
  by (cases c) (simp add: fromHexChar_def is_hex_digit_def Let_def)

text \<open>Decoding succeeds on the hex strings, and on no other string.\<close>

lemma hex_DecodeString_ok:
  "is_hex_string s \<Longrightarrow> \<exists>bs. hex_DecodeString s = Inr bs \<and> length bs = length s div 2"
proof (induction s rule: hex_DecodeString.induct)
  case 1
  then show ?case by simp
next
  case (2 c)
  then show ?case by (simp add: is_hex_string_def)
next
  case (3 c1 c2 cs)
  from "3.prems" have d: "is_hex_digit c1" "is_hex_digit c2" and r: "is_hex_string cs"
    by (simp_all add: is_hex_string_def)
  from d obtain a b where ab: "fromHexChar c1 = Some a" "fromHexChar c2 = Some b"
    using fromHexChar_Some_iff by blast
  from "3.IH" [OF ab r] obtain bs where
    "hex_DecodeString cs = Inr bs" "length bs = length cs div 2"
    by blast
  with ab show ?case by simp
qed

lemma hex_DecodeString_only_hex:
  "hex_DecodeString s = Inr bs \<Longrightarrow> is_hex_string s"
proof (induction s arbitrary: bs rule: hex_DecodeString.induct)
  case 1
  then show ?case by (simp add: is_hex_string_def)
next
  case (2 c)
  then show ?case by (simp split: option.splits)
next
  case (3 c1 c2 cs)
  from "3.prems" obtain a b bs' where ab: "fromHexChar c1 = Some a" "fromHexChar c2 = Some b"
    and r: "hex_DecodeString cs = Inr bs'"
    by (auto split: option.splits sum.splits)
  from "3.IH" [OF ab r] have "is_hex_string cs" .
  moreover from ab have "is_hex_digit c1" "is_hex_digit c2"
    using fromHexChar_Some_iff by blast+
  ultimately show ?case by (simp add: is_hex_string_def)
qed

text \<open>Decoding gives back the bytes that were encoded.\<close>

lemma fromHexChar_hextable_all:
  "\<forall>n \<in> set [0..<16]. fromHexChar (hextable ! n) = Some (of_nat n)"
  by code_simp

lemma fromHexChar_hextable:
  "n < 16 \<Longrightarrow> fromHexChar (hextable ! n) = Some (of_nat n)"
  using fromHexChar_hextable_all by simp

lemma nibbles: "push_bit 4 (drop_bit 4 v) OR (v AND 15) = (v :: 8 word)"
proof -
  have "(15 :: 8 word) = mask 4" by (simp add: mask_eq_exp_minus_1)
  then show ?thesis
    by (simp add: bit_eq_iff bit_simps) (auto simp: bit_simps)
qed

lemma hex_roundtrip: "hex_DecodeString (hex_EncodeToString bs) = Inr bs"
proof (induction bs)
  case Nil
  then show ?case by simp
next
  case (Cons v vs)
  have "unat v < 256" using unsigned_less [of v] by simp
  moreover have "unat (drop_bit 4 v) = unat v div 2 ^ 4"
    unfolding unat_drop_bit_eq by (rule drop_bit_eq_div)
  ultimately have hi: "unat (drop_bit 4 v) < 16" by simp
  have "unat (v AND 15) \<le> unat (15 :: 8 word)"
    by (rule word_and_le1 [THEN word_le_nat_alt [THEN iffD1]])
  then have lo: "unat (v AND 15) < 16" by simp
  show ?case
    using Cons fromHexChar_hextable [OF hi] fromHexChar_hextable [OF lo] nibbles [of v]
    by simp
qed

lemma BroadcastRawTransaction_bad_hex:
  "hex_DecodeString (TxBytes args) = Inl err \<Longrightarrow>
   BroadcastRawTransaction K Hex Ins mempool args result = (mempool, result, Some (DecodeError err))"
  by (simp add: BroadcastRawTransaction_def)

text \<open>
  C7: for every hex string argument, \<open>BroadcastRawTransaction\<close> decodes it (to half as
  many bytes as the string has characters), calls \<open>InsertTransaction\<close> of the mempool on
  the decoded bytes, and sets the hash of the result to the rendering of the keccak-256 hash
  of those bytes; the error it returns is the error of the insertion.
\<close>

theorem BroadcastRawTransaction_hex:
  assumes "is_hex_string (TxBytes args)"
  shows "\<exists>txBytes. hex_DecodeString (TxBytes args) = Inr txBytes \<and>
           length txBytes = length (TxBytes args) div 2 \<and>
           BroadcastRawTransaction Keccak256Hash Hex InsertTransaction mempool args result =
             (fst (InsertTransaction mempool txBytes),
              result\<lparr>result_TxHash := Hex (Keccak256Hash txBytes)\<rparr>,
              map_option InsertTransactionError (snd (InsertTransaction mempool txBytes)))"
proof -
  from hex_DecodeString_ok [OF assms] obtain txBytes where
    d: "hex_DecodeString (TxBytes args) = Inr txBytes"
    and l: "length txBytes = length (TxBytes args) div 2"
    by blast
  have "BroadcastRawTransaction Keccak256Hash Hex InsertTransaction mempool args result =
          (fst (InsertTransaction mempool txBytes),
           result\<lparr>result_TxHash := Hex (Keccak256Hash txBytes)\<rparr>,
           map_option InsertTransactionError (snd (InsertTransaction mempool txBytes)))"
    by (simp add: BroadcastRawTransaction_def d Let_def split: prod.splits)
  with d l show ?thesis by blast
qed

theorem BroadcastRawTransaction_hex_witness:
  "is_hex_string (TxBytes \<lparr>TxBytes = ''0aFf10''\<rparr>) \<and>
   hex_DecodeString ''0aFf10'' = Inr [10, 255, 16] \<and>
   BroadcastRawTransaction toy_keccak toy_Hex list_InsertTransaction []
       \<lparr>TxBytes = ''0aFf10''\<rparr> \<lparr>result_TxHash = ''''\<rparr>
     = ([[10, 255, 16]], \<lparr>result_TxHash = ''0x04''\<rparr>, None)"
proof -
  have 1: "is_hex_string (TxBytes \<lparr>TxBytes = ''0aFf10''\<rparr>)"
    by (simp add: is_hex_string_def is_hex_digit_def)
  have 2: "hex_DecodeString ''0aFf10'' = Inr [10, 255, 16]"
    by (simp add: fromHexChar_def)
  have 3: "toy_Hex (toy_keccak [10, 255, 16]) = ''0x04''"
    by (simp add: toy_Hex_def toy_keccak_def hextable_def)
  from BroadcastRawTransaction_hex [OF 1, of toy_keccak toy_Hex list_InsertTransaction "[]"
      "\<lparr>result_TxHash = ''''\<rparr>"] 1 2 3
  show ?thesis by (simp add: list_InsertTransaction_def)
qed

end
